theory Spec2Isabelle
  imports Main "HOL-Library.AList"
begin

section \<open>Data model of the stint planner\<close>

text \<open>
  The program is one Streamlit script, \<^verbatim>\<open>streamlit_app.py\<close>. Its data are Python
  dictionaries and pandas frames. A dictionary with insertion order is an association list
  with distinct keys; a frame is its column index together with its rows. The hour columns
  of the pilot frame are named \<^verbatim>\<open>str(h)\<close> in the store and
  \<^verbatim>\<open>f"{(start_hour + h) % 24:02d}:00"\<close> in the editor; for a race of at most 24
  hours that renaming is one-to-one, so a column is identified here by its hour \<open>h\<close>.
  Cells are Booleans, names are strings and the limit is an integer, as in the persisted
  document; hour indices, durations and list positions are natural numbers.
\<close>

datatype py_error = KeyError | IndexError

record slot =
  Piloto_al_Volante :: string
  Comentarios :: string

record pilot_row =
  Piloto :: string
  Quiere_Empezar :: bool
  Quiere_Terminar :: bool
  Horas_Limite :: int
  Hora :: "nat \<Rightarrow> bool"

record pilots_df =
  hour_columns :: "nat list"
  df_rows :: "pilot_row list"

definition Sin_Asignar :: string where
  "Sin_Asignar = ''Sin Asignar''"

section \<open>Loops and indexing that can raise\<close>

text \<open>
  \<^verbatim>\<open>for i in range(n): body\<close> where the body may raise: the first error ends the
  loop and is the result.
\<close>

fun for_range :: "(nat \<Rightarrow> 's \<Rightarrow> py_error + 's) \<Rightarrow> nat list \<Rightarrow> 's \<Rightarrow> py_error + 's" where
  "for_range body [] s = Inr s"
| "for_range body (i # is) s =
     (case body i s of Inl e \<Rightarrow> Inl e | Inr s' \<Rightarrow> for_range body is s')"

text \<open>
  A loop body that reads element \<open>i\<close> of a list (\<^verbatim>\<open>IndexError\<close> when there is none) and
  writes fields of that same element.
\<close>

definition at_index :: "(nat \<Rightarrow> 'a \<Rightarrow> py_error + 'a) \<Rightarrow> nat \<Rightarrow> 'a list \<Rightarrow> py_error + 'a list" where
  "at_index f i xs =
     (if i < length xs
      then (case f i (xs ! i) of Inl e \<Rightarrow> Inl e | Inr x \<Rightarrow> Inr (xs[i := x]))
      else Inl IndexError)"

section \<open>Availability of a pilot at an hour\<close>

text \<open>
  Lines 216--219, the value \<^verbatim>\<open>disponible\<close> of the availability-save handler for the
  first row \<open>r\<close> that carries the assigned name:
  \<^verbatim>\<open>
  if i == 0: disponible = piloto_config_row['Quiere Empezar'].iloc[0]
  elif i == race_duration - 1: disponible = piloto_config_row['Quiere Terminar'].iloc[0]
  else: disponible = piloto_config_row[str(i)].iloc[0]
  \<close>
  Selecting a column the frame does not have raises \<^verbatim>\<open>KeyError\<close>.
\<close>

definition disponible :: "pilots_df \<Rightarrow> pilot_row \<Rightarrow> nat \<Rightarrow> nat \<Rightarrow> py_error + bool" where
  "disponible df r i race_duration =
     (if i = 0 then Inr (Quiere_Empezar r)
      else if i = race_duration - 1 then Inr (Quiere_Terminar r)
      else if i \<in> set (hour_columns df) then Inr (Hora r i)
      else Inl KeyError)"


text \<open>
  The specification's \<open>effectiveAvailability\<close>, written from its words: the start flag at
  hour 0, the finish flag at the last hour, the hourly entry otherwise, false when the
  entry is missing.
\<close>

definition effectiveAvailability :: "pilots_df \<Rightarrow> pilot_row \<Rightarrow> nat \<Rightarrow> nat \<Rightarrow> bool" where
  "effectiveAvailability df r hourIndex durationHours =
     (if hourIndex = 0 then Quiere_Empezar r
      else if hourIndex = durationHours - 1 then Quiere_Terminar r
      else (hourIndex \<in> set (hour_columns df) \<and> Hora r hourIndex))"

section \<open>Reconciling the schedule when availability is saved\<close>

text \<open>
  Lines 211--222. For slot \<open>i\<close>:
  \<^verbatim>\<open>
  piloto_asignado = latest_horario[i]['Piloto al Volante']
  if piloto_asignado != "Sin Asignar":
      piloto_config_row = df_to_save[df_to_save['Piloto'] == piloto_asignado]
      if not piloto_config_row.empty:
          ... disponible ...
          if not disponible:
              latest_horario[i]['Piloto al Volante'] = "Sin Asignar"
  \<close>
\<close>

definition reconcile_slot :: "pilots_df \<Rightarrow> nat \<Rightarrow> nat \<Rightarrow> slot \<Rightarrow> py_error + slot" where
  "reconcile_slot df_to_save race_duration i s =
     (let piloto_asignado = Piloto_al_Volante s in
      if piloto_asignado \<noteq> Sin_Asignar
      then (case filter (\<lambda>r. Piloto r = piloto_asignado) (df_rows df_to_save) of
              [] \<Rightarrow> Inr s
            | r # _ \<Rightarrow>
                (case disponible df_to_save r i race_duration of
                   Inl e \<Rightarrow> Inl e
                 | Inr d \<Rightarrow> if \<not> d then Inr (s\<lparr>Piloto_al_Volante := Sin_Asignar\<rparr>) else Inr s))
      else Inr s)"

definition reconcile :: "pilots_df \<Rightarrow> slot list \<Rightarrow> nat \<Rightarrow> py_error + slot list" where
  "reconcile df_to_save latest_horario race_duration =
     for_range (at_index (reconcile_slot df_to_save race_duration)) [0..<race_duration] latest_horario"

text \<open>
  What the loop does to one slot when nothing raises: the name is cleared exactly when a
  row with that name exists and the first such row is not available at that hour.
\<close>

definition first_row :: "pilots_df \<Rightarrow> string \<Rightarrow> pilot_row option" where
  "first_row df name = find (\<lambda>r. Piloto r = name) (df_rows df)"

definition cleared :: "pilots_df \<Rightarrow> nat \<Rightarrow> nat \<Rightarrow> slot \<Rightarrow> bool" where
  "cleared df race_duration i s =
     (Piloto_al_Volante s \<noteq> Sin_Asignar \<and>
      (case first_row df (Piloto_al_Volante s) of
         None \<Rightarrow> False
       | Some r \<Rightarrow> \<not> effectiveAvailability df r i race_duration))"

text \<open>
  The frame has the column of every hour strictly between the first and the last hour of
  the race, the only hour columns the loop reads.
\<close>

definition has_hour_columns :: "pilots_df \<Rightarrow> nat \<Rightarrow> bool" where
  "has_hour_columns df race_duration = list_all (\<lambda>h. h \<in> set (hour_columns df)) [1..<race_duration - 1]"

section \<open>Summary of the assignments\<close>

text \<open>
  Line 288: \<^verbatim>\<open>pd.Series(nuevas_asignaciones).value_counts().drop("Sin Asignar",
  errors='ignore').reset_index()\<close>. \<^verbatim>\<open>value_counts\<close> has one row per distinct value,
  ordered by decreasing count; the order among equal counts is left open by pandas and is
  fixed here by a stable sort of the values in order of appearance.
\<close>

definition value_counts :: "string list \<Rightarrow> (string \<times> nat) list" where
  "value_counts xs =
     sort_key (\<lambda>row. - int (snd row)) (map (\<lambda>x. (x, count_list xs x)) (rev (remdups (rev xs))))"

definition resumen_df :: "string list \<Rightarrow> (string \<times> nat) list" where
  "resumen_df nuevas_asignaciones =
     filter (\<lambda>row. fst row \<noteq> Sin_Asignar) (value_counts nuevas_asignaciones)"

text \<open>
  Lines 302--310, one pass of the alert loop. The warning shown is
  \<^verbatim>\<open>f"**{piloto_nombre}** supera su limite de {int(limite)} stints ({stints_asignados}
  asignados)."\<close>; the model keeps its three values.
\<close>

datatype alert = Warning string int nat

definition alerta :: "pilots_df \<Rightarrow> string \<times> nat \<Rightarrow> alert list" where
  "alerta edited_pilots_df row =
     (let piloto_nombre = fst row; stints_asignados = snd row in
      case filter (\<lambda>r. Piloto r = piloto_nombre) (df_rows edited_pilots_df) of
        [] \<Rightarrow> []
      | r # _ \<Rightarrow>
          (let limite = Horas_Limite r in
           if limite > 0 \<and> int stints_asignados > limite
           then [Warning piloto_nombre limite stints_asignados] else []))"

definition alertas :: "pilots_df \<Rightarrow> (string \<times> nat) list \<Rightarrow> alert list" where
  "alertas edited_pilots_df resumen = concat (map (alerta edited_pilots_df) resumen)"

definition summarize :: "string list \<Rightarrow> pilots_df \<Rightarrow> (string \<times> nat) list \<times> alert list" where
  "summarize nuevas_asignaciones edited_pilots_df =
     (resumen_df nuevas_asignaciones, alertas edited_pilots_df (resumen_df nuevas_asignaciones))"

text \<open>
  What the alert loop amounts to for one row of the summary: whether the first pilot row
  with that name is over its limit, and the warning shown then.
\<close>

definition over_limit :: "pilots_df \<Rightarrow> string \<times> nat \<Rightarrow> bool" where
  "over_limit df row =
     (case first_row df (fst row) of
        None \<Rightarrow> False
      | Some r \<Rightarrow> Horas_Limite r > 0 \<and> int (snd row) > Horas_Limite r)"

definition warning_of :: "pilots_df \<Rightarrow> string \<times> nat \<Rightarrow> alert" where
  "warning_of df row =
     Warning (fst row) (case first_row df (fst row) of None \<Rightarrow> 0 | Some r \<Rightarrow> Horas_Limite r)
       (snd row)"

fun alert_name :: "alert \<Rightarrow> string" where
  "alert_name (Warning n l c) = n"

text \<open>
  The specification's condition for an alert: the pilot has a cap greater than 0 and the
  count of the pilot's name among the assignments exceeds it. The counts leave out
  "Sin Asignar".
\<close>

definition exceeds_cap :: "string list \<Rightarrow> pilot_row \<Rightarrow> bool" where
  "exceeds_cap assignments r =
     (Piloto r \<noteq> Sin_Asignar \<and> Horas_Limite r > 0 \<and>
      int (count_list assignments (Piloto r)) > Horas_Limite r)"

section \<open>Teams, the stored document and the session\<close>

text \<open>
  A team is the dictionary with keys \<^verbatim>\<open>race_config\<close>, \<^verbatim>\<open>pilots\<close> and
  \<^verbatim>\<open>horario\<close>; \<^verbatim>\<open>pilots\<close> holds the records of the pilot frame and is kept as that
  frame. The document maps team names to teams.
\<close>

record race_cfg =
  start_hour :: nat
  duration :: nat

record team =
  race_config :: race_cfg
  pilots :: pilots_df
  horario :: "slot list"

type_synonym document = "(string \<times> team) list"

text \<open>Lines 24--39.\<close>

definition default_pilot :: "string \<Rightarrow> bool \<Rightarrow> bool \<Rightarrow> pilot_row" where
  "default_pilot name empezar terminar =
     \<lparr>Piloto = name, Quiere_Empezar = empezar, Quiere_Terminar = terminar,
      Horas_Limite = 0, Hora = (\<lambda>h. True)\<rparr>"

definition get_default_team_structure :: "string \<Rightarrow> nat \<Rightarrow> team" where
  "get_default_team_structure team_name dur =
     \<lparr>race_config = \<lparr>start_hour = 14, duration = dur\<rparr>,
      pilots = \<lparr>hour_columns = [0..<dur],
                df_rows = [default_pilot ''Piloto 1'' False False,
                           default_pilot ''Piloto 2'' True False,
                           default_pilot ''Piloto 3'' False True,
                           default_pilot ''Piloto 4'' False False]\<rparr>,
      horario = replicate dur \<lparr>Piloto_al_Volante = Sin_Asignar, Comentarios = []\<rparr>\<rparr>"

text \<open>
  The collection holds at most one record, \<^verbatim>\<open>{"_id": "main_database", "data": ...}\<close>;
  \<open>collection\<close> is its \<^verbatim>\<open>data\<close>, or \<open>None\<close> when there is no record. Every call on the
  collection is appended to \<open>store_log\<close>. The rest of the state is
  \<^verbatim>\<open>st.session_state\<close>.
\<close>

datatype store_op = FindOne | InsertOne | UpdateOne

record app_state =
  collection :: "document option"
  store_log :: "store_op list"
  db :: document
  selected_team :: "string option"
  newly_created_team :: "string option"

datatype outcome = Rerun | Error_shown | Raised py_error | Stopped | No_change

definition default_data :: document where
  "default_data = [(''Equipo por Defecto'', get_default_team_structure ''Equipo por Defecto'' 24)]"

text \<open>Lines 46--54 and 56--59.\<close>

definition load_data :: "app_state \<Rightarrow> document \<times> app_state" where
  "load_data s =
     (case collection s of
        None \<Rightarrow> (default_data,
                 s\<lparr>collection := Some default_data, store_log := store_log s @ [FindOne, InsertOne]\<rparr>)
      | Some stored_data \<Rightarrow> (stored_data, s\<lparr>store_log := store_log s @ [FindOne]\<rparr>))"

definition save_data :: "document \<Rightarrow> app_state \<Rightarrow> app_state" where
  "save_data data s = s\<lparr>collection := Some data, store_log := store_log s @ [UpdateOne]\<rparr>"

definition save_load :: "app_state \<Rightarrow> app_state" where
  "save_load s = (let (data, s1) = load_data s in save_data data s1)"


section \<open>The handlers\<close>

text \<open>Lines 104--116, the button that creates a team.\<close>

definition create_team_handler :: "string \<Rightarrow> nat \<Rightarrow> app_state \<Rightarrow> outcome \<times> app_state" where
  "create_team_handler new_team_name new_team_duration s =
     (if new_team_name \<noteq> [] \<and> new_team_name \<notin> set (map fst (db s))
      then (let s1 = s\<lparr>db := AList.update new_team_name
                           (get_default_team_structure new_team_name new_team_duration) (db s)\<rparr>;
                s2 = save_data (db s1) s1;
                (data, s3) = load_data s2
            in (Rerun, s3\<lparr>db := data, newly_created_team := Some new_team_name\<rparr>))
      else (Error_shown, s))"

text \<open>Lines 118--128, the button that deletes a team.\<close>

definition delete_team_handler :: "string option \<Rightarrow> app_state \<Rightarrow> outcome \<times> app_state" where
  "delete_team_handler team_to_delete s =
     (case team_to_delete of
        None \<Rightarrow> (Error_shown, s)
      | Some t \<Rightarrow>
          if t \<noteq> [] \<and> length (db s) > 1
          then (if t \<in> set (map fst (db s))
                then (let s1 = s\<lparr>db := AList.delete t (db s)\<rparr>;
                          s2 = save_data (db s1) s1;
                          (data, s3) = load_data s2
                      in (Rerun, s3\<lparr>db := data, selected_team := None\<rparr>))
                else (Raised KeyError, s))
          else (Error_shown, s))"

text \<open>
  Lines 133--147 and 169--176: the script stops when \<^verbatim>\<open>selected_team\<close> is falsy
  (\<^verbatim>\<open>None\<close> or the empty string); otherwise \<^verbatim>\<open>team_data\<close> is the selected team of the
  session, and a changed start hour is written into it and the session's document saved.
\<close>

definition start_hour_handler :: "nat \<Rightarrow> app_state \<Rightarrow> outcome \<times> app_state" where
  "start_hour_handler new_hour s =
     (case selected_team s of
        None \<Rightarrow> (Stopped, s)
      | Some sel \<Rightarrow>
          if sel = [] then (Stopped, s) else
          (case map_of (db s) sel of
             None \<Rightarrow> (Raised KeyError, s)
           | Some team_data \<Rightarrow>
               if new_hour \<noteq> start_hour (race_config team_data)
               then (let s1 = s\<lparr>db := AList.update sel
                                   (team_data\<lparr>race_config := (race_config team_data)\<lparr>start_hour := new_hour\<rparr>\<rparr>)
                                   (db s)\<rparr>
                     in (Rerun, save_data (db s1) s1))
               else (No_change, s)))"

text \<open>
  Lines 204--229, the button that saves the pilot frame. \<^verbatim>\<open>race_duration\<close> is the
  duration of the session's copy of the team (line 147); the schedule is the one just
  loaded.
\<close>

definition save_pilots_handler :: "pilots_df \<Rightarrow> app_state \<Rightarrow> outcome \<times> app_state" where
  "save_pilots_handler df_to_save s =
     (case selected_team s of
        None \<Rightarrow> (Stopped, s)
      | Some sel \<Rightarrow>
          if sel = [] then (Stopped, s) else
          (case map_of (db s) sel of
             None \<Rightarrow> (Raised KeyError, s)
           | Some team_data \<Rightarrow>
               (let race_duration = duration (race_config team_data);
                    (latest_db_data, s1) = load_data s
                in case map_of latest_db_data sel of
                     None \<Rightarrow> (Raised KeyError, s1)
                   | Some latest_team \<Rightarrow>
                       (case reconcile df_to_save (horario latest_team) race_duration of
                          Inl e \<Rightarrow> (Raised e, s1)
                        | Inr latest_horario \<Rightarrow>
                            (let latest' = AList.update sel
                                   (latest_team\<lparr>pilots := df_to_save, horario := latest_horario\<rparr>)
                                   latest_db_data;
                                 s2 = save_data latest' s1
                             in (Rerun, s2\<lparr>db := latest'\<rparr>))))))"

text \<open>
  Lines 273--278, one pass of the merge loop of the schedule-save button.
  \<^verbatim>\<open>horario_df\<close> is the schedule the session showed, \<^verbatim>\<open>nuevas_asignaciones\<close> and
  \<^verbatim>\<open>nuevos_comentarios\<close> are what the widgets returned:
  \<^verbatim>\<open>
  if nuevas_asignaciones[i] != horario_df.loc[i, "Piloto al Volante"]:
      horario_a_guardar[i]['Piloto al Volante'] = nuevas_asignaciones[i]
  if nuevos_comentarios[i] != horario_df.loc[i, "Comentarios"]:
      horario_a_guardar[i]['Comentarios'] = nuevos_comentarios[i]
  \<close>
\<close>

definition list_get :: "'a list \<Rightarrow> nat \<Rightarrow> py_error + 'a" where
  "list_get xs i = (if i < length xs then Inr (xs ! i) else Inl IndexError)"

definition loc_get :: "'a list \<Rightarrow> nat \<Rightarrow> py_error + 'a" where
  "loc_get rows i = (if i < length rows then Inr (rows ! i) else Inl KeyError)"

definition set_item :: "slot list \<Rightarrow> nat \<Rightarrow> (slot \<Rightarrow> slot) \<Rightarrow> py_error + slot list" where
  "set_item xs i f = (if i < length xs then Inr (xs[i := f (xs ! i)]) else Inl IndexError)"

definition merge_step ::
  "string list \<Rightarrow> string list \<Rightarrow> slot list \<Rightarrow> nat \<Rightarrow> slot list \<Rightarrow> py_error + slot list" where
  "merge_step nuevas_asignaciones nuevos_comentarios horario_df i horario_a_guardar =
     (case list_get nuevas_asignaciones i of
        Inl e \<Rightarrow> Inl e
      | Inr a \<Rightarrow>
         (case loc_get horario_df i of
            Inl e \<Rightarrow> Inl e
          | Inr shown \<Rightarrow>
             (case (if a \<noteq> Piloto_al_Volante shown
                    then set_item horario_a_guardar i (\<lambda>x. x\<lparr>Piloto_al_Volante := a\<rparr>)
                    else Inr horario_a_guardar) of
                Inl e \<Rightarrow> Inl e
              | Inr h1 \<Rightarrow>
                 (case list_get nuevos_comentarios i of
                    Inl e \<Rightarrow> Inl e
                  | Inr c \<Rightarrow>
                     (if c \<noteq> Comentarios shown
                      then set_item h1 i (\<lambda>x. x\<lparr>Comentarios := c\<rparr>)
                      else Inr h1)))))"

definition merge_horario ::
  "string list \<Rightarrow> string list \<Rightarrow> slot list \<Rightarrow> nat \<Rightarrow> slot list \<Rightarrow> py_error + slot list" where
  "merge_horario nuevas_asignaciones nuevos_comentarios horario_df race_duration horario_a_guardar =
     for_range (merge_step nuevas_asignaciones nuevos_comentarios horario_df)
       [0..<race_duration] horario_a_guardar"

text \<open>
  Lines 269--284, the button that saves the schedule. The loop of lines 241--243 has read
  \<^verbatim>\<open>horario_df.loc[i, ...]\<close> for every \<^verbatim>\<open>i\<close> below \<^verbatim>\<open>race_duration\<close> before the
  button is reached, so a shorter \<^verbatim>\<open>horario_df\<close> has raised \<^verbatim>\<open>KeyError\<close> by then.
\<close>

definition save_horario_handler ::
  "string list \<Rightarrow> string list \<Rightarrow> app_state \<Rightarrow> outcome \<times> app_state" where
  "save_horario_handler nuevas_asignaciones nuevos_comentarios s =
     (case selected_team s of
        None \<Rightarrow> (Stopped, s)
      | Some sel \<Rightarrow>
          if sel = [] then (Stopped, s) else
          (case map_of (db s) sel of
             None \<Rightarrow> (Raised KeyError, s)
           | Some team_data \<Rightarrow>
               (let race_duration = duration (race_config team_data);
                    horario_df = horario team_data
                in if length horario_df < race_duration then (Raised KeyError, s) else
                   (let (latest_db_data, s1) = load_data s
                    in case map_of latest_db_data sel of
                         None \<Rightarrow> (Raised KeyError, s1)
                       | Some latest_team \<Rightarrow>
                           (case merge_horario nuevas_asignaciones nuevos_comentarios horario_df
                                   race_duration (horario latest_team) of
                              Inl e \<Rightarrow> (Raised e, s1)
                            | Inr horario_a_guardar \<Rightarrow>
                                (let latest' = AList.update sel
                                       (latest_team\<lparr>horario := horario_a_guardar\<rparr>)
                                       latest_db_data;
                                     s2 = save_data latest' s1
                                 in (Rerun, s2\<lparr>db := latest'\<rparr>)))))))"

text \<open>What the merge leaves in slot \<open>i\<close> of the loaded schedule.\<close>

definition merged_slot :: "string list \<Rightarrow> string list \<Rightarrow> slot list \<Rightarrow> nat \<Rightarrow> slot \<Rightarrow> slot" where
  "merged_slot nuevas_asignaciones nuevos_comentarios horario_df i x =
     \<lparr>Piloto_al_Volante =
        (if nuevas_asignaciones ! i \<noteq> Piloto_al_Volante (horario_df ! i)
         then nuevas_asignaciones ! i else Piloto_al_Volante x),
      Comentarios =
        (if nuevos_comentarios ! i \<noteq> Comentarios (horario_df ! i)
         then nuevos_comentarios ! i else Comentarios x)\<rparr>"

section \<open>The operations as one transition function\<close>

datatype action =
    Create_Team string nat
  | Delete_Team "string option"
  | Change_Start_Hour nat
  | Save_Pilots pilots_df
  | Save_Horario "string list" "string list"

fun step :: "action \<Rightarrow> app_state \<Rightarrow> outcome \<times> app_state" where
  "step (Create_Team name dur) s = create_team_handler name dur s"
| "step (Delete_Team t) s = delete_team_handler t s"
| "step (Change_Start_Hour h) s = start_hour_handler h s"
| "step (Save_Pilots df) s = save_pilots_handler df s"
| "step (Save_Horario a c) s = save_horario_handler a c s"

definition shape_ok :: "team \<Rightarrow> bool" where
  "shape_ok t = (length (horario t) = duration (race_config t))"

definition doc_ok :: "document \<Rightarrow> bool" where
  "doc_ok d = list_all (\<lambda>nt. shape_ok (snd nt)) d"

definition schedule_shape :: "app_state \<Rightarrow> bool" where
  "schedule_shape s =
     (doc_ok (db s) \<and> (case collection s of None \<Rightarrow> True | Some d \<Rightarrow> doc_ok d))"



section \<open>Example data\<close>

text \<open>
  Example 1 of the specification: Alex wants to start and is not available at hour 1 of a
  three-hour race. Bea is assigned to the last hour and has no row in the frame.
\<close>

definition ex_alex :: pilot_row where
  "ex_alex = \<lparr>Piloto = ''Alex'', Quiere_Empezar = True, Quiere_Terminar = False,
              Horas_Limite = 0, Hora = (\<lambda>h. h \<noteq> 1)\<rparr>"

definition ex_pilots :: pilots_df where
  "ex_pilots = \<lparr>hour_columns = [0, 1, 2], df_rows = [ex_alex]\<rparr>"

definition ex_horario :: "slot list" where
  "ex_horario = [\<lparr>Piloto_al_Volante = ''Alex'', Comentarios = ''start''\<rparr>,
                 \<lparr>Piloto_al_Volante = ''Alex'', Comentarios = ''keep''\<rparr>,
                 \<lparr>Piloto_al_Volante = ''Bea'', Comentarios = ''x''\<rparr>]"

definition ex_reconciled :: "slot list" where
  "ex_reconciled = [\<lparr>Piloto_al_Volante = ''Alex'', Comentarios = ''start''\<rparr>,
                    \<lparr>Piloto_al_Volante = ''Sin Asignar'', Comentarios = ''keep''\<rparr>,
                    \<lparr>Piloto_al_Volante = ''Bea'', Comentarios = ''x''\<rparr>]"


text \<open>
  Example 2 of the specification: five slots for Sam, whose limit is 3.
\<close>

definition ex_sam_df :: pilots_df where
  "ex_sam_df = \<lparr>hour_columns = [],
                df_rows = [\<lparr>Piloto = ''Sam'', Quiere_Empezar = True, Quiere_Terminar = True,
                            Horas_Limite = 3, Hora = (\<lambda>h. True)\<rparr>]\<rparr>"

definition ex_five_sam :: "string list" where
  "ex_five_sam = [''Sam'', ''Sam'', ''Sam'', ''Sam'', ''Sam'']"

text \<open>
  A session that shows team A, the only team, as it is stored; and a session whose copy is
  stale: meanwhile another session has created team B and put Cleo into the last slot of A.
\<close>

definition ex_team_a :: team where
  "ex_team_a = \<lparr>race_config = \<lparr>start_hour = 14, duration = 3\<rparr>,
                pilots = ex_pilots, horario = ex_horario\<rparr>"

definition ex_horario_other :: "slot list" where
  "ex_horario_other = [\<lparr>Piloto_al_Volante = ''Alex'', Comentarios = ''start''\<rparr>,
                       \<lparr>Piloto_al_Volante = ''Alex'', Comentarios = ''keep''\<rparr>,
                       \<lparr>Piloto_al_Volante = ''Cleo'', Comentarios = ''late''\<rparr>]"

definition ex_team_a_other :: team where
  "ex_team_a_other = \<lparr>race_config = \<lparr>start_hour = 14, duration = 3\<rparr>,
                      pilots = ex_pilots, horario = ex_horario_other\<rparr>"

definition ex_team_b :: team where
  "ex_team_b = get_default_team_structure ''B'' 3"

definition ex_session :: app_state where
  "ex_session = \<lparr>collection = Some [(''A'', ex_team_a)], store_log = [],
                 db = [(''A'', ex_team_a)], selected_team = Some ''A'',
                 newly_created_team = None\<rparr>"

definition ex_stale :: app_state where
  "ex_stale = \<lparr>collection = Some [(''A'', ex_team_a_other), (''B'', ex_team_b)], store_log = [],
               db = [(''A'', ex_team_a)], selected_team = Some ''A'',
               newly_created_team = None\<rparr>"

text \<open>
  What the widgets of the stale session return when the user only unassigns the first slot,
  and the schedules of team A that the two save buttons then write.
\<close>

definition ex_nuevas_asignaciones :: "string list" where
  "ex_nuevas_asignaciones = [''Sin Asignar'', ''Alex'', ''Bea'']"

definition ex_nuevos_comentarios :: "string list" where
  "ex_nuevos_comentarios = [''start'', ''keep'', ''x'']"

definition ex_horario_merged :: "slot list" where
  "ex_horario_merged = [\<lparr>Piloto_al_Volante = ''Sin Asignar'', Comentarios = ''start''\<rparr>,
                        \<lparr>Piloto_al_Volante = ''Alex'', Comentarios = ''keep''\<rparr>,
                        \<lparr>Piloto_al_Volante = ''Cleo'', Comentarios = ''late''\<rparr>]"

definition ex_horario_other_reconciled :: "slot list" where
  "ex_horario_other_reconciled =
     [\<lparr>Piloto_al_Volante = ''Alex'', Comentarios = ''start''\<rparr>,
      \<lparr>Piloto_al_Volante = ''Sin Asignar'', Comentarios = ''keep''\<rparr>,
      \<lparr>Piloto_al_Volante = ''Cleo'', Comentarios = ''late''\<rparr>]"

text \<open>A session whose document has two teams.\<close>

definition ex_two_teams :: app_state where
  "ex_two_teams = \<lparr>collection = Some [(''A'', ex_team_a)], store_log = [],
                   db = [(''A'', ex_team_a), (''B'', ex_team_b)], selected_team = Some ''A'',
                   newly_created_team = None\<rparr>"

section \<open>Loop lemmas\<close>

lemma for_range_append:
  "for_range body (xs @ ys) s =
     (case for_range body xs s of Inl e \<Rightarrow> Inl e | Inr s' \<Rightarrow> for_range body ys s')"
  by (induction xs arbitrary: s) (auto split: sum.splits)

lemma for_range_upt_Suc:
  "for_range body [0..<Suc n] s =
     (case for_range body [0..<n] s of Inl e \<Rightarrow> Inl e | Inr s' \<Rightarrow> body n s')"
  by (simp add: for_range_append split: sum.splits)

lemma at_index_InrD:
  assumes "at_index f i xs = Inr ys"
  shows "i < length xs \<and> (\<exists>x. f i (xs ! i) = Inr x \<and> ys = xs[i := x])"
  using assms by (auto simp: at_index_def split: if_splits sum.splits)

lemma for_range_at_index_InrD:
  "for_range (at_index f) [0..<n] xs = Inr ys \<Longrightarrow>
     length ys = length xs \<and> n \<le> length xs \<and>
     (\<forall>i<n. f i (xs ! i) = Inr (ys ! i)) \<and>
     (\<forall>i. n \<le> i \<longrightarrow> i < length xs \<longrightarrow> ys ! i = xs ! i)"
proof (induction n arbitrary: ys)
  case 0
  then show ?case by simp
next
  case (Suc n)
  from Suc.prems obtain zs where zs: "for_range (at_index f) [0..<n] xs = Inr zs"
    and step: "at_index f n zs = Inr ys"
    unfolding for_range_upt_Suc by (auto split: sum.splits)
  from Suc.IH[OF zs] have len: "length zs = length xs" and le: "n \<le> length xs"
    and low: "\<forall>i<n. f i (xs ! i) = Inr (zs ! i)"
    and high: "\<forall>i. n \<le> i \<longrightarrow> i < length xs \<longrightarrow> zs ! i = xs ! i"
    by auto
  from at_index_InrD[OF step] obtain x where n: "n < length zs"
    and fx: "f n (zs ! n) = Inr x" and ys: "ys = zs[n := x]"
    by auto
  have "zs ! n = xs ! n" using high n len by simp
  with fx have fn: "f n (xs ! n) = Inr x" by simp
  have "\<forall>i<Suc n. f i (xs ! i) = Inr (ys ! i)"
  proof (intro allI impI)
    fix i assume "i < Suc n"
    then consider "i < n" | "i = n" by linarith
    then show "f i (xs ! i) = Inr (ys ! i)"
    proof cases
      case 1
      then show ?thesis using low ys by simp
    next
      case 2
      then show ?thesis using fn ys n by simp
    qed
  qed
  moreover have "\<forall>i. Suc n \<le> i \<longrightarrow> i < length xs \<longrightarrow> ys ! i = xs ! i"
    using high ys by simp
  ultimately show ?case using len n ys by simp
qed

lemma for_range_at_index_InrI:
  "n \<le> length xs \<Longrightarrow> (\<forall>i<n. f i (xs ! i) = Inr (g i)) \<Longrightarrow>
     for_range (at_index f) [0..<n] xs = Inr (map g [0..<n] @ drop n xs)"
proof (induction n)
  case 0
  then show ?case by simp
next
  case (Suc n)
  let ?zs = "map g [0..<n] @ drop n xs"
  from Suc have IH: "for_range (at_index f) [0..<n] xs = Inr ?zs" by simp
  have n: "n < length xs" using Suc.prems by simp
  have zn: "?zs ! n = xs ! n" using n by (simp add: nth_append)
  have len: "length ?zs = length xs" using n by simp
  have fn: "f n (xs ! n) = Inr (g n)" using Suc.prems by simp
  have "?zs[n := g n] = map g [0..<Suc n] @ drop (Suc n) xs"
  proof (rule nth_equalityI)
    show "length (?zs[n := g n]) = length (map g [0..<Suc n] @ drop (Suc n) xs)"
      using n by simp
  next
    fix i assume "i < length (?zs[n := g n])"
    then have i: "i < length xs" using n by simp
    consider "i < n" | "i = n" | "n < i" by linarith
    then show "?zs[n := g n] ! i = (map g [0..<Suc n] @ drop (Suc n) xs) ! i"
    proof cases
      case 1
      then show ?thesis using n by (simp add: nth_append)
    next
      case 2
      then show ?thesis using n by (simp add: nth_append)
    next
      case 3
      then show ?thesis using n i by (simp add: nth_append)
    qed
  qed
  then have "at_index f n ?zs = Inr (map g [0..<Suc n] @ drop (Suc n) xs)"
    using n zn fn len by (simp add: at_index_def)
  then show ?case using IH by (simp only: for_range_upt_Suc sum.case)
qed

section \<open>Availability and the eligible pilots\<close>

lemma disponible_effective:
  "i = 0 \<or> i = race_duration - 1 \<or> i \<in> set (hour_columns df) \<Longrightarrow>
     disponible df r i race_duration = Inr (effectiveAvailability df r i race_duration)"
  by (auto simp: disponible_def effectiveAvailability_def)






section \<open>Reconciliation\<close>

lemma filter_Nil_find: "filter P xs = [] \<Longrightarrow> find P xs = None"
  by (induction xs) (auto split: if_splits)

lemma filter_Cons_find: "filter P xs = r # rs \<Longrightarrow> find P xs = Some r"
  by (induction xs) (auto split: if_splits)

lemma reconcile_slot_cleared:
  assumes "i = 0 \<or> i = race_duration - 1 \<or> i \<in> set (hour_columns df)"
  shows "reconcile_slot df race_duration i s =
           Inr (if cleared df race_duration i s then s\<lparr>Piloto_al_Volante := Sin_Asignar\<rparr> else s)"
proof (cases "filter (\<lambda>r. Piloto r = Piloto_al_Volante s) (df_rows df)")
  case Nil
  then show ?thesis
    by (simp add: reconcile_slot_def cleared_def first_row_def filter_Nil_find Let_def)
next
  case (Cons r rs)
  then show ?thesis
    using disponible_effective[OF assms, of r]
    by (simp add: reconcile_slot_def cleared_def first_row_def filter_Cons_find Let_def)
qed

lemma reconcile_slot_idem:
  assumes "reconcile_slot df race_duration i s = Inr s'"
  shows "reconcile_slot df race_duration i s' = Inr s'"
  using assms
  by (auto simp: reconcile_slot_def Let_def split: if_splits list.splits sum.splits)

lemma has_hour_columnsD:
  "has_hour_columns df race_duration \<Longrightarrow> i < race_duration \<Longrightarrow>
     i = 0 \<or> i = race_duration - 1 \<or> i \<in> set (hour_columns df)"
  by (auto simp: has_hour_columns_def list_all_iff)

lemma prefix_map_drop:
  assumes "n \<le> length xs"
  shows "map g [0..<n] @ drop n xs = map (\<lambda>i. if i < n then g i else xs ! i) [0..<length xs]"
proof (rule nth_equalityI)
  show "length (map g [0..<n] @ drop n xs) =
        length (map (\<lambda>i. if i < n then g i else xs ! i) [0..<length xs])"
    using assms by simp
next
  fix i assume "i < length (map g [0..<n] @ drop n xs)"
  then have "i < length xs" using assms by simp
  then show "(map g [0..<n] @ drop n xs) ! i =
             map (\<lambda>i. if i < n then g i else xs ! i) [0..<length xs] ! i"
    using assms by (simp add: nth_append)
qed

lemma reconcile_total:
  assumes "race_duration \<le> length latest_horario" and "has_hour_columns df race_duration"
  shows "reconcile df latest_horario race_duration =
     Inr (map (\<lambda>i. if cleared df race_duration i (latest_horario ! i)
                   then (latest_horario ! i)\<lparr>Piloto_al_Volante := Sin_Asignar\<rparr>
                   else latest_horario ! i) [0..<race_duration] @ drop race_duration latest_horario)"
proof -
  let ?g = "\<lambda>i. if cleared df race_duration i (latest_horario ! i)
               then (latest_horario ! i)\<lparr>Piloto_al_Volante := Sin_Asignar\<rparr>
               else latest_horario ! i"
  have "\<forall>i<race_duration. reconcile_slot df race_duration i (latest_horario ! i) = Inr (?g i)"
    using has_hour_columnsD[OF assms(2)] reconcile_slot_cleared by blast
  from for_range_at_index_InrI[of race_duration latest_horario "reconcile_slot df race_duration" ?g,
      OF assms(1) this]
  show ?thesis unfolding reconcile_def .
qed

lemma reconcile_again:
  assumes "reconcile df h d = Inr h'"
  shows "reconcile df h' d = Inr h'"
proof -
  from for_range_at_index_InrD[OF assms[unfolded reconcile_def]]
  have len: "length h' = length h" and le: "d \<le> length h"
    and low: "\<forall>i<d. reconcile_slot df d i (h ! i) = Inr (h' ! i)"
    by auto
  have "\<forall>i<d. reconcile_slot df d i (h' ! i) = Inr (h' ! i)"
    using low reconcile_slot_idem by blast
  with le len have "reconcile df h' d = Inr (map (\<lambda>i. h' ! i) [0..<d] @ drop d h')"
    unfolding reconcile_def
    using for_range_at_index_InrI[of d h' "reconcile_slot df d" "\<lambda>i. h' ! i"] by simp
  moreover have "map (\<lambda>i. h' ! i) [0..<d] @ drop d h' = h'"
  proof -
    have "map (\<lambda>i. h' ! i) [0..<d] = take d h'"
      using le len by (intro nth_equalityI) auto
    then show ?thesis by simp
  qed
  ultimately show ?thesis by simp
qed


lemma ex_reconcile: "reconcile ex_pilots ex_horario 3 = Inr ex_reconciled"
  by code_simp

text \<open>
  C1, as the code has it. For a schedule with at least \<open>race_duration\<close> slots and a frame
  that has the hour columns strictly between the first and the last hour, the save of the
  pilot frame returns the schedule in which slot \<open>i < race_duration\<close> has its pilot set to
  "Sin Asignar" exactly when its pilot is not "Sin Asignar", a row with that name exists in
  the frame and the first such row is not available at hour \<open>i\<close>; the comment of that slot
  is kept. A slot whose pilot has no row in the frame, and every other slot, is unchanged.
\<close>

theorem reconcile_clears_unavailable:
  assumes "race_duration \<le> length latest_horario" and "has_hour_columns df race_duration"
  shows "reconcile df latest_horario race_duration =
     Inr (map (\<lambda>i. if i < race_duration \<and> cleared df race_duration i (latest_horario ! i)
                   then \<lparr>Piloto_al_Volante = Sin_Asignar,
                         Comentarios = Comentarios (latest_horario ! i)\<rparr>
                   else latest_horario ! i) [0..<length latest_horario])"
proof -
  let ?g = "\<lambda>i. if cleared df race_duration i (latest_horario ! i)
               then (latest_horario ! i)\<lparr>Piloto_al_Volante := Sin_Asignar\<rparr>
               else latest_horario ! i"
  have "map ?g [0..<race_duration] @ drop race_duration latest_horario =
        map (\<lambda>i. if i < race_duration then ?g i else latest_horario ! i) [0..<length latest_horario]"
    by (rule prefix_map_drop[OF assms(1)])
  also have "\<dots> = map (\<lambda>i. if i < race_duration \<and> cleared df race_duration i (latest_horario ! i)
                   then \<lparr>Piloto_al_Volante = Sin_Asignar,
                         Comentarios = Comentarios (latest_horario ! i)\<rparr>
                   else latest_horario ! i) [0..<length latest_horario]"
    by (intro map_cong refl) auto
  finally show ?thesis using reconcile_total[OF assms] by simp
qed

theorem reconcile_clears_unavailable_witness:
  "3 \<le> length ex_horario \<and> has_hour_columns ex_pilots 3 \<and>
   reconcile ex_pilots ex_horario 3 =
     Inr [\<lparr>Piloto_al_Volante = ''Alex'', Comentarios = ''start''\<rparr>,
          \<lparr>Piloto_al_Volante = ''Sin Asignar'', Comentarios = ''keep''\<rparr>,
          \<lparr>Piloto_al_Volante = ''Bea'', Comentarios = ''x''\<rparr>]"
proof -
  have h1: "3 \<le> length ex_horario" by (simp add: ex_horario_def)
  have h2: "has_hour_columns ex_pilots 3"
    by code_simp
  have len: "[0..<length ex_horario] = [0, 1, 2]"
    by code_simp
  show ?thesis
    using reconcile_clears_unavailable[OF h1 h2] h1 h2
    by (simp add: len cleared_def first_row_def effectiveAvailability_def Sin_Asignar_def
        ex_pilots_def ex_alex_def ex_horario_def)
qed

text \<open>
  C1 as stated fails: Bea is assigned to the last hour and has no row in the frame, yet the
  save of the pilot frame leaves her in the slot.
\<close>

theorem reconcile_keeps_unknown_pilot_counterexample:
  "length ex_horario = 3 \<and>
   Piloto_al_Volante (ex_horario ! 2) = ''Bea'' \<and>
   ''Bea'' \<notin> set (map Piloto (df_rows ex_pilots)) \<and>
   reconcile ex_pilots ex_horario 3 = Inr ex_reconciled \<and>
   Piloto_al_Volante (ex_reconciled ! 2) = ''Bea'' \<and>
   ''Bea'' \<noteq> Sin_Asignar"
  using ex_reconcile
  by (simp add: Sin_Asignar_def ex_pilots_def ex_alex_def ex_horario_def ex_reconciled_def)

text \<open>
  C3. Reconciling the result of a reconciliation against the same frame and duration gives
  that result again; when the first reconciliation raises, so does the composition.
\<close>

theorem reconcile_idempotent:
  "(case reconcile df h d of Inl e \<Rightarrow> Inl e | Inr h' \<Rightarrow> reconcile df h' d) = reconcile df h d"
proof (cases "reconcile df h d")
  case (Inl e)
  then show ?thesis by simp
next
  case (Inr h')
  then show ?thesis using reconcile_again[OF Inr] by simp
qed

theorem reconcile_idempotent_witness:
  "reconcile ex_pilots ex_horario 3 = Inr ex_reconciled \<and>
   reconcile ex_pilots ex_reconciled 3 = Inr ex_reconciled"
  using reconcile_idempotent[where df = ex_pilots and h = ex_horario and d = 3] ex_reconcile
  by simp


section \<open>The summary\<close>

lemma distinct_map_insort_key:
  "distinct (map g (insort_key f x xs)) = (g x \<notin> g ` set xs \<and> distinct (map g xs))"
  by (induction xs) (auto simp: set_insort_key)

lemma distinct_map_sort_key:
  "distinct (map g (sort_key f xs)) = distinct (map g xs)"
  by (induction xs) (auto simp: distinct_map_insort_key)

lemma set_value_counts:
  "set (value_counts xs) = (\<lambda>x. (x, count_list xs x)) ` set xs"
  unfolding value_counts_def by (simp only: set_sort set_map set_rev set_remdups)

lemma distinct_value_counts: "distinct (map fst (value_counts xs))"
proof -
  have "map fst (map (\<lambda>x. (x, count_list xs x)) ys) = ys" for ys
    by (induction ys) simp_all
  then show ?thesis
    unfolding value_counts_def distinct_map_sort_key by (simp only: distinct_rev distinct_remdups)
qed

lemma set_resumen_df:
  "set (resumen_df xs) = (\<lambda>x. (x, count_list xs x)) ` {x \<in> set xs. x \<noteq> Sin_Asignar}"
proof -
  have "set (resumen_df xs) = {row \<in> set (value_counts xs). fst row \<noteq> Sin_Asignar}"
    unfolding resumen_df_def by (simp only: set_filter)
  also have "\<dots> = (\<lambda>x. (x, count_list xs x)) ` {x \<in> set xs. x \<noteq> Sin_Asignar}"
    unfolding set_value_counts by force
  finally show ?thesis .
qed

lemma distinct_resumen_df: "distinct (map fst (resumen_df xs))"
  unfolding resumen_df_def by (rule distinct_map_filter) (rule distinct_value_counts)

lemma map_of_resumen_df:
  "map_of (resumen_df xs) n =
     (if n \<in> set xs \<and> n \<noteq> Sin_Asignar then Some (count_list xs n) else None)"
proof (cases "n \<in> set xs \<and> n \<noteq> Sin_Asignar")
  case True
  then have "(n, count_list xs n) \<in> set (resumen_df xs)" by (auto simp: set_resumen_df)
  then show ?thesis using True distinct_resumen_df[of xs] by simp
next
  case False
  then have "n \<notin> fst ` set (resumen_df xs)" by (auto simp: set_resumen_df)
  then have "map_of (resumen_df xs) n = None" by (simp add: map_of_eq_None_iff)
  then show ?thesis using False by auto
qed

lemma alerta_if:
  "alerta df row = (if over_limit df row then [warning_of df row] else [])"
proof (cases "filter (\<lambda>r. Piloto r = fst row) (df_rows df)")
  case Nil
  then show ?thesis
    by (simp add: alerta_def over_limit_def first_row_def filter_Nil_find Let_def)
next
  case (Cons r rs)
  then show ?thesis
    by (simp add: alerta_def over_limit_def warning_of_def first_row_def filter_Cons_find Let_def)
qed

lemma concat_map_if:
  "concat (map (\<lambda>x. if P x then [f x] else []) xs) = map f (filter P xs)"
  by (induction xs) auto

lemma alertas_filter:
  "alertas df resumen = map (warning_of df) (filter (over_limit df) resumen)"
proof -
  have "alerta df = (\<lambda>row. if over_limit df row then [warning_of df row] else [])"
    by (rule ext) (rule alerta_if)
  then show ?thesis unfolding alertas_def by (simp only: concat_map_if)
qed

lemma distinct_alert_names:
  assumes "distinct (map fst resumen)"
  shows "distinct (map alert_name (alertas df resumen))"
proof -
  have "map alert_name (alertas df resumen) = map fst (filter (over_limit df) resumen)"
    by (simp add: alertas_filter warning_of_def comp_def)
  moreover have "distinct (map fst (filter (over_limit df) resumen))"
    using assms by (rule distinct_map_filter)
  ultimately show ?thesis by simp
qed

lemma find_distinct_key:
  "distinct (map g xs) \<Longrightarrow> r \<in> set xs \<Longrightarrow> find (\<lambda>x. g x = g r) xs = Some r"
  by (induction xs) (auto simp: image_iff)

lemma first_row_distinct:
  assumes "distinct (map Piloto (df_rows df))" and "r \<in> set (df_rows df)"
  shows "first_row df (Piloto r) = Some r"
  using find_distinct_key[OF assms] by (simp add: first_row_def)

lemma over_limit_row:
  assumes "distinct (map Piloto (df_rows df))" and "r \<in> set (df_rows df)"
  shows "over_limit df (Piloto r, c) = (Horas_Limite r > 0 \<and> int c > Horas_Limite r)"
    and "warning_of df (Piloto r, c) = Warning (Piloto r) (Horas_Limite r) c"
  using first_row_distinct[OF assms] by (simp_all add: over_limit_def warning_of_def)

lemma over_limit_has_row:
  "over_limit df row \<Longrightarrow> \<exists>r \<in> set (df_rows df). Piloto r = fst row"
  by (auto simp: over_limit_def first_row_def find_Some_iff split: option.splits)

lemma exceeds_cap_assigned:
  assumes "exceeds_cap xs r"
  shows "Piloto r \<in> set xs"
proof (rule ccontr)
  assume "Piloto r \<notin> set xs"
  then have "count_list xs (Piloto r) = 0" by (simp add: count_list_0_iff)
  with assms show False by (auto simp: exceeds_cap_def)
qed

lemma set_alertas:
  assumes "distinct (map Piloto (df_rows df))"
  shows "set (alertas df (resumen_df xs)) =
     (\<lambda>r. Warning (Piloto r) (Horas_Limite r) (count_list xs (Piloto r))) `
       {r \<in> set (df_rows df). exceeds_cap xs r}"
    (is "?L = ?R")
proof (intro equalityI subsetI)
  fix a assume "a \<in> ?L"
  then obtain row where row: "row \<in> set (resumen_df xs)" and ov: "over_limit df row"
    and a: "a = warning_of df row"
    by (auto simp: alertas_filter)
  from row obtain n where n: "n \<in> set xs" "n \<noteq> Sin_Asignar" and roweq: "row = (n, count_list xs n)"
    by (auto simp: set_resumen_df)
  from over_limit_has_row[OF ov] obtain r where r: "r \<in> set (df_rows df)" and pr: "Piloto r = n"
    using roweq by auto
  from over_limit_row[OF assms r, of "count_list xs n"] ov a roweq pr n r
  show "a \<in> ?R" by (auto simp: exceeds_cap_def)
next
  fix a assume "a \<in> ?R"
  then obtain r where r: "r \<in> set (df_rows df)" and ex: "exceeds_cap xs r"
    and a: "a = Warning (Piloto r) (Horas_Limite r) (count_list xs (Piloto r))"
    by auto
  let ?row = "(Piloto r, count_list xs (Piloto r))"
  have "?row \<in> set (resumen_df xs)"
    using ex exceeds_cap_assigned[OF ex] by (auto simp: set_resumen_df exceeds_cap_def)
  moreover have "over_limit df ?row" and "warning_of df ?row = a"
    using over_limit_row[OF assms r, of "count_list xs (Piloto r)"] ex a
    by (auto simp: exceeds_cap_def)
  ultimately show "a \<in> ?L" by (auto simp: alertas_filter)
qed

text \<open>
  C6. The counts returned by the summary have one entry per name other than "Sin Asignar"
  that occurs among the assignments, with the number of its occurrences. The alerts name
  each pilot at most once and are exactly the warnings for the counted names whose pilot
  row (the first with that name) has a limit greater than 0 that the count exceeds, each
  with the name, the limit and the count. For pilot rows with distinct names, as the data
  model has them, that is one alert for each pilot whose limit is greater than 0 and is
  exceeded by the pilot's count.
\<close>

theorem summarize_counts_and_alerts:
  "distinct (map fst (fst (summarize xs df))) \<and>
   map_of (fst (summarize xs df)) n =
     (if n \<in> set xs \<and> n \<noteq> Sin_Asignar then Some (count_list xs n) else None) \<and>
   distinct (map alert_name (snd (summarize xs df))) \<and>
   set (snd (summarize xs df)) =
     warning_of df ` {row \<in> set (fst (summarize xs df)). over_limit df row} \<and>
   (distinct (map Piloto (df_rows df)) \<longrightarrow>
      set (snd (summarize xs df)) =
        (\<lambda>r. Warning (Piloto r) (Horas_Limite r) (count_list xs (Piloto r))) `
          {r \<in> set (df_rows df). exceeds_cap xs r})"
proof (intro conjI impI)
  show "distinct (map fst (fst (summarize xs df)))"
    by (simp add: summarize_def distinct_resumen_df)
  show "map_of (fst (summarize xs df)) n =
     (if n \<in> set xs \<and> n \<noteq> Sin_Asignar then Some (count_list xs n) else None)"
    by (simp only: summarize_def fst_conv map_of_resumen_df)
  show "distinct (map alert_name (snd (summarize xs df)))"
    by (simp only: summarize_def snd_conv distinct_alert_names[OF distinct_resumen_df])
  show "set (snd (summarize xs df)) =
     warning_of df ` {row \<in> set (fst (summarize xs df)). over_limit df row}"
    by (simp only: summarize_def snd_conv fst_conv alertas_filter set_map set_filter)
next
  assume "distinct (map Piloto (df_rows df))"
  then show "set (snd (summarize xs df)) =
        (\<lambda>r. Warning (Piloto r) (Horas_Limite r) (count_list xs (Piloto r))) `
          {r \<in> set (df_rows df). exceeds_cap xs r}"
    by (simp only: summarize_def snd_conv set_alertas)
qed

lemma ex_summarize:
  "summarize ex_five_sam ex_sam_df = ([(''Sam'', 5)], [Warning ''Sam'' 3 5])"
  by code_simp

theorem summarize_counts_and_alerts_witness:
  "distinct (map Piloto (df_rows ex_sam_df)) \<and>
   summarize ex_five_sam ex_sam_df = ([(''Sam'', 5)], [Warning ''Sam'' 3 5]) \<and>
   map_of (fst (summarize ex_five_sam ex_sam_df)) ''Sam'' = Some (count_list ex_five_sam ''Sam'') \<and>
   count_list ex_five_sam ''Sam'' = 5 \<and>
   set (snd (summarize ex_five_sam ex_sam_df)) =
     (\<lambda>r. Warning (Piloto r) (Horas_Limite r) (count_list ex_five_sam (Piloto r))) `
       {r \<in> set (df_rows ex_sam_df). exceeds_cap ex_five_sam r}"
proof -
  have d: "distinct (map Piloto (df_rows ex_sam_df))" by (simp add: ex_sam_df_def)
  have m: "''Sam'' \<in> set ex_five_sam \<and> ''Sam'' \<noteq> Sin_Asignar"
    by (simp add: ex_five_sam_def Sin_Asignar_def)
  have c: "count_list ex_five_sam ''Sam'' = 5" by (simp add: ex_five_sam_def)
  from summarize_counts_and_alerts[of ex_five_sam ex_sam_df "''Sam''"] m
  have "map_of (fst (summarize ex_five_sam ex_sam_df)) ''Sam'' = Some (count_list ex_five_sam ''Sam'')"
    by simp
  moreover from summarize_counts_and_alerts[of ex_five_sam ex_sam_df "''Sam''"] d
  have "set (snd (summarize ex_five_sam ex_sam_df)) =
     (\<lambda>r. Warning (Piloto r) (Horas_Limite r) (count_list ex_five_sam (Piloto r))) `
       {r \<in> set (df_rows ex_sam_df). exceeds_cap ex_five_sam r}"
    by blast
  ultimately show ?thesis using d c ex_summarize by blast
qed

section \<open>The default team\<close>

text \<open>
  C9. For every duration, so for each of 24, 12, 10, 8, 6, 4 and 3, the default team has
  start hour 14 and that duration, four pilot rows with distinct names, an hour column for
  every hour of the race with every cell true, exactly one row that wants to start and
  exactly one that wants to finish, limit 0 in every row, and a schedule of as many slots as
  the duration, each "Sin Asignar" with an empty comment. The function is total.
\<close>

theorem factory_default_team:
  "(let t = get_default_team_structure team_name dur; rows = df_rows (pilots t) in
      race_config t = \<lparr>start_hour = 14, duration = dur\<rparr> \<and>
      length rows = 4 \<and> distinct (map Piloto rows) \<and>
      hour_columns (pilots t) = [0..<dur] \<and>
      (\<forall>r \<in> set rows. \<forall>h \<in> set (hour_columns (pilots t)). Hora r h) \<and>
      length (filter Quiere_Empezar rows) = 1 \<and>
      length (filter Quiere_Terminar rows) = 1 \<and>
      (\<forall>r \<in> set rows. Horas_Limite r = 0) \<and>
      length (horario t) = dur \<and>
      (\<forall>x \<in> set (horario t). x = \<lparr>Piloto_al_Volante = Sin_Asignar, Comentarios = []\<rparr>))"
  by (simp add: get_default_team_structure_def default_pilot_def)

theorem factory_default_team_witness:
  "start_hour (race_config (get_default_team_structure ''Equipo'' 24)) = 14 \<and>
   duration (race_config (get_default_team_structure ''Equipo'' 24)) = 24 \<and>
   length (horario (get_default_team_structure ''Equipo'' 24)) = 24 \<and>
   set (horario (get_default_team_structure ''Equipo'' 24)) =
     {\<lparr>Piloto_al_Volante = ''Sin Asignar'', Comentarios = []\<rparr>} \<and>
   length (df_rows (pilots (get_default_team_structure ''Equipo'' 24))) = 4 \<and>
   length (hour_columns (pilots (get_default_team_structure ''Equipo'' 24))) = 24"
  using factory_default_team[of "''Equipo''" 24]
  by (auto simp: Let_def get_default_team_structure_def Sin_Asignar_def)

section \<open>Load and save\<close>

text \<open>
  C7. Saving what was just loaded leaves the stored document as the load left it: a stored
  document stays exactly as it was, and an empty store holds the default document that the
  load itself put there.
\<close>

theorem save_load_roundtrip:
  "collection (save_load s) = collection (snd (load_data s)) \<and>
   (case collection s of
      Some d \<Rightarrow> collection (save_load s) = Some d
    | None \<Rightarrow> collection (save_load s) = Some default_data)"
  by (simp add: save_load_def load_data_def save_data_def split: option.splits)

theorem save_load_roundtrip_witness:
  "collection ex_stale = Some [(''A'', ex_team_a_other), (''B'', ex_team_b)] \<and>
   collection (save_load ex_stale) = Some [(''A'', ex_team_a_other), (''B'', ex_team_b)] \<and>
   collection (ex_stale\<lparr>collection := None\<rparr>) = None \<and>
   collection (save_load (ex_stale\<lparr>collection := None\<rparr>)) = Some default_data"
proof -
  have n: "collection (ex_stale\<lparr>collection := None\<rparr>) = None" by simp
  from save_load_roundtrip[of "ex_stale\<lparr>collection := None\<rparr>"] have
    e: "collection (save_load (ex_stale\<lparr>collection := None\<rparr>)) = Some default_data"
    unfolding n option.case by blast
  have c: "collection ex_stale = Some [(''A'', ex_team_a_other), (''B'', ex_team_b)]"
    by (simp add: ex_stale_def)
  from save_load_roundtrip[of ex_stale] have
    "collection (save_load ex_stale) = Some [(''A'', ex_team_a_other), (''B'', ex_team_b)]"
    unfolding c option.case by blast
  with c n e show ?thesis by blast
qed

section \<open>Validation guards\<close>

text \<open>
  C5. Creating a team with an empty name, or with a name that is a key of the session's
  team mapping, shows an error and leaves the whole state as it was: the mapping and the
  store. Deleting a team when the session's mapping has at most one team shows an error and
  leaves the whole state as it was.
\<close>

theorem validation_guards_change_nothing:
  "(new_team_name = [] \<or> new_team_name \<in> set (map fst (db s)) \<longrightarrow>
      create_team_handler new_team_name new_team_duration s = (Error_shown, s)) \<and>
   (length (db s) \<le> 1 \<longrightarrow> delete_team_handler team_to_delete s = (Error_shown, s))"
  by (auto simp: create_team_handler_def delete_team_handler_def split: option.splits)

theorem validation_guards_change_nothing_witness:
  "create_team_handler [] 3 ex_session = (Error_shown, ex_session) \<and>
   ''A'' \<in> set (map fst (db ex_session)) \<and>
   create_team_handler ''A'' 3 ex_session = (Error_shown, ex_session) \<and>
   length (db ex_session) \<le> 1 \<and>
   delete_team_handler (Some ''A'') ex_session = (Error_shown, ex_session)"
  using validation_guards_change_nothing[of "[]" ex_session 3 "Some ''A''"]
    validation_guards_change_nothing[of "''A''" ex_session 3 "Some ''A''"]
  by (simp add: ex_session_def)


section \<open>The handlers and the shape of the schedule\<close>


lemma for_range_pointwise:
  "n \<le> length xs \<Longrightarrow>
   (\<forall>i<n. \<forall>ys. length ys = length xs \<longrightarrow> ys ! i = xs ! i \<longrightarrow> body i ys = Inr (ys[i := g i])) \<Longrightarrow>
     for_range body [0..<n] xs = Inr (map g [0..<n] @ drop n xs)"
proof (induction n)
  case 0
  then show ?case by simp
next
  case (Suc n)
  let ?zs = "map g [0..<n] @ drop n xs"
  from Suc have IH: "for_range body [0..<n] xs = Inr ?zs" by simp
  have n: "n < length xs" using Suc.prems by simp
  have zn: "?zs ! n = xs ! n" using n by (simp add: nth_append)
  have len: "length ?zs = length xs" using n by simp
  have step: "body n ?zs = Inr (?zs[n := g n])" using Suc.prems(2) zn len by blast
  have "?zs[n := g n] = map g [0..<Suc n] @ drop (Suc n) xs"
  proof (rule nth_equalityI)
    show "length (?zs[n := g n]) = length (map g [0..<Suc n] @ drop (Suc n) xs)"
      using n by simp
  next
    fix i assume "i < length (?zs[n := g n])"
    then have i: "i < length xs" using n by simp
    consider "i < n" | "i = n" | "n < i" by linarith
    then show "?zs[n := g n] ! i = (map g [0..<Suc n] @ drop (Suc n) xs) ! i"
    proof cases
      case 1
      then show ?thesis using n by (simp add: nth_append)
    next
      case 2
      then show ?thesis using n by (simp add: nth_append)
    next
      case 3
      then show ?thesis using n i by (simp add: nth_append)
    qed
  qed
  with step have "body n ?zs = Inr (map g [0..<Suc n] @ drop (Suc n) xs)" by simp
  then show ?case using IH by (simp only: for_range_upt_Suc sum.case)
qed




lemma merged_slot_updates:
  "merged_slot a c shown i x =
     (let x1 = (if a ! i \<noteq> Piloto_al_Volante (shown ! i) then x\<lparr>Piloto_al_Volante := a ! i\<rparr> else x)
      in if c ! i \<noteq> Comentarios (shown ! i) then x1\<lparr>Comentarios := c ! i\<rparr> else x1)"
  by (cases x) (simp add: merged_slot_def Let_def)

lemma merge_step_merged:
  assumes "i < length a" "i < length c" "i < length shown" "i < length h"
  shows "merge_step a c shown i h = Inr (h[i := merged_slot a c shown i (h ! i)])"
  using assms
  by (simp add: merge_step_def list_get_def loc_get_def set_item_def merged_slot_updates Let_def)

lemma merge_horario_total:
  assumes "d \<le> length h" "d \<le> length a" "d \<le> length c" "d \<le> length shown"
  shows "merge_horario a c shown d h =
           Inr (map (\<lambda>i. merged_slot a c shown i (h ! i)) [0..<d] @ drop d h)"
  unfolding merge_horario_def
proof (rule for_range_pointwise[OF assms(1)], intro allI impI)
  fix i ys assume i: "i < d" and len: "length ys = length h" and eq: "ys ! i = h ! i"
  have "merge_step a c shown i ys = Inr (ys[i := merged_slot a c shown i (ys ! i)])"
    using i assms len by (intro merge_step_merged) auto
  then show "merge_step a c shown i ys = Inr (ys[i := merged_slot a c shown i (h ! i)])"
    using eq by simp
qed






lemma load_data_cases:
  obtains (empty) "collection s = None" 
      "load_data s = (default_data, s\<lparr>collection := Some default_data,
          store_log := store_log s @ [FindOne, InsertOne]\<rparr>)"
  | (stored) d where "collection s = Some d" "load_data s = (d, s\<lparr>store_log := store_log s @ [FindOne]\<rparr>)"
  by (cases "collection s") (auto simp: load_data_def)



lemma save_data_shape:
  "doc_ok data \<Longrightarrow> doc_ok (db s) \<Longrightarrow> schedule_shape (save_data data s)"
  by (simp add: schedule_shape_def save_data_def)

lemma load_after_save:
  "load_data (save_data data s) =
     (data, s\<lparr>collection := Some data, store_log := store_log s @ [UpdateOne, FindOne]\<rparr>)"
  by (simp add: load_data_def save_data_def)

lemma create_team_success:
  assumes "new_team_name \<noteq> []" and "new_team_name \<notin> set (map fst (db s))"
  shows "create_team_handler new_team_name dur s =
     (Rerun, s\<lparr>collection := Some (AList.update new_team_name
                      (get_default_team_structure new_team_name dur) (db s)),
               store_log := store_log s @ [UpdateOne, FindOne],
               db := AList.update new_team_name
                      (get_default_team_structure new_team_name dur) (db s),
               newly_created_team := Some new_team_name\<rparr>)"
  using assms by (simp add: create_team_handler_def load_after_save Let_def)

lemma delete_team_success:
  assumes "t \<noteq> []" and "length (db s) > 1" and "t \<in> set (map fst (db s))"
  shows "delete_team_handler (Some t) s =
     (Rerun, s\<lparr>collection := Some (AList.delete t (db s)),
               store_log := store_log s @ [UpdateOne, FindOne],
               db := AList.delete t (db s),
               selected_team := None\<rparr>)"
  using assms by (simp add: delete_team_handler_def load_after_save Let_def)

lemma start_hour_success:
  assumes "selected_team s = Some sel" and "map_of (db s) sel = Some team_data"
    and "new_hour \<noteq> start_hour (race_config team_data)" and "sel \<noteq> []"
  shows "start_hour_handler new_hour s =
     (Rerun, s\<lparr>collection := Some (AList.update sel
                 (team_data\<lparr>race_config := (race_config team_data)\<lparr>start_hour := new_hour\<rparr>\<rparr>) (db s)),
               store_log := store_log s @ [UpdateOne],
               db := AList.update sel
                 (team_data\<lparr>race_config := (race_config team_data)\<lparr>start_hour := new_hour\<rparr>\<rparr>) (db s)\<rparr>)"
  using assms by (simp add: start_hour_handler_def save_data_def Let_def)

lemma save_pilots_success:
  assumes "selected_team s = Some sel" and "map_of (db s) sel = Some team_data"
    and "load_data s = (latest, s1)" and "map_of latest sel = Some latest_team"
    and "reconcile df (horario latest_team) (duration (race_config team_data)) = Inr h'"
    and "sel \<noteq> []"
  shows "save_pilots_handler df s =
     (Rerun, s1\<lparr>collection := Some (AList.update sel (latest_team\<lparr>pilots := df, horario := h'\<rparr>) latest),
                store_log := store_log s1 @ [UpdateOne],
                db := AList.update sel (latest_team\<lparr>pilots := df, horario := h'\<rparr>) latest\<rparr>)"
  using assms by (simp add: save_pilots_handler_def save_data_def Let_def)

lemma save_horario_success:
  assumes "selected_team s = Some sel" and "map_of (db s) sel = Some team_data"
    and "load_data s = (latest, s1)" and "map_of latest sel = Some latest_team"
    and "merge_horario a c (horario team_data) (duration (race_config team_data))
           (horario latest_team) = Inr h'"
    and "sel \<noteq> []" and "duration (race_config team_data) \<le> length (horario team_data)"
  shows "save_horario_handler a c s =
     (Rerun, s1\<lparr>collection := Some (AList.update sel (latest_team\<lparr>horario := h'\<rparr>) latest),
                store_log := store_log s1 @ [UpdateOne],
                db := AList.update sel (latest_team\<lparr>horario := h'\<rparr>) latest\<rparr>)"
  using assms by (simp add: save_horario_handler_def save_data_def Let_def)

lemma save_pilots_RerunD:
  assumes "save_pilots_handler df s = (Rerun, s')"
  obtains sel team_data latest s1 latest_team h' where
    "selected_team s = Some sel" "map_of (db s) sel = Some team_data"
    "load_data s = (latest, s1)" "map_of latest sel = Some latest_team"
    "reconcile df (horario latest_team) (duration (race_config team_data)) = Inr h'"
    "s' = s1\<lparr>collection := Some (AList.update sel (latest_team\<lparr>pilots := df, horario := h'\<rparr>) latest),
                store_log := store_log s1 @ [UpdateOne],
                db := AList.update sel (latest_team\<lparr>pilots := df, horario := h'\<rparr>) latest\<rparr>"
    "sel \<noteq> []"
  using assms
  by (auto simp: save_pilots_handler_def save_data_def Let_def
      split: option.splits sum.splits prod.splits if_splits)

lemma save_horario_RerunD:
  assumes "save_horario_handler a c s = (Rerun, s')"
  obtains sel team_data latest s1 latest_team h' where
    "selected_team s = Some sel" "map_of (db s) sel = Some team_data"
    "load_data s = (latest, s1)" "map_of latest sel = Some latest_team"
    "merge_horario a c (horario team_data) (duration (race_config team_data))
           (horario latest_team) = Inr h'"
    "s' = s1\<lparr>collection := Some (AList.update sel (latest_team\<lparr>horario := h'\<rparr>) latest),
                store_log := store_log s1 @ [UpdateOne],
                db := AList.update sel (latest_team\<lparr>horario := h'\<rparr>) latest\<rparr>"
    "sel \<noteq> []" "duration (race_config team_data) \<le> length (horario team_data)"
  using assms
  by (auto simp: save_horario_handler_def save_data_def Let_def
      split: option.splits sum.splits prod.splits if_splits)

lemma create_team_RerunD:
  assumes "create_team_handler n dur s = (Rerun, s')"
  shows "n \<noteq> [] \<and> n \<notin> set (map fst (db s))"
  using assms by (auto simp: create_team_handler_def split: if_splits)

lemma delete_team_RerunD:
  assumes "delete_team_handler t s = (Rerun, s')"
  obtains name where "t = Some name" "name \<noteq> []" "length (db s) > 1" "name \<in> set (map fst (db s))"
  using assms by (auto simp: delete_team_handler_def split: option.splits if_splits)

lemma start_hour_RerunD:
  assumes "start_hour_handler h s = (Rerun, s')"
  obtains sel team_data where "selected_team s = Some sel" "map_of (db s) sel = Some team_data"
    "h \<noteq> start_hour (race_config team_data)" "sel \<noteq> []"
  using assms by (auto simp: start_hour_handler_def split: option.splits if_splits)




















section \<open>The operations as a whole\<close>


lemma ex_stale_load:
  "load_data ex_stale =
     ([(''A'', ex_team_a_other), (''B'', ex_team_b)], ex_stale\<lparr>store_log := [FindOne]\<rparr>)"
  by (simp add: load_data_def ex_stale_def)

lemma ex_stale_fields:
  "selected_team ex_stale = Some ''A''" "map_of (db ex_stale) ''A'' = Some ex_team_a"
  "collection ex_stale = Some [(''A'', ex_team_a_other), (''B'', ex_team_b)]"
  "store_log ex_stale = []" "''A'' \<noteq> []"
  by (simp_all add: ex_stale_def)


lemma ex_merge:
  "merge_horario ex_nuevas_asignaciones ex_nuevos_comentarios ex_horario 3 ex_horario_other =
     Inr ex_horario_merged"
  by code_simp

lemma ex_reconcile_other:
  "reconcile ex_pilots ex_horario_other 3 = Inr ex_horario_other_reconciled"
  by code_simp

lemma ex_save_horario:
  "save_horario_handler ex_nuevas_asignaciones ex_nuevos_comentarios ex_stale =
     (Rerun, ex_stale\<lparr>
        collection := Some [(''A'', ex_team_a_other\<lparr>horario := ex_horario_merged\<rparr>), (''B'', ex_team_b)],
        store_log := [FindOne, UpdateOne],
        db := [(''A'', ex_team_a_other\<lparr>horario := ex_horario_merged\<rparr>), (''B'', ex_team_b)]\<rparr>)"
proof -
  have m: "map_of [(''A'', ex_team_a_other), (''B'', ex_team_b)] ''A'' = Some ex_team_a_other"
    by simp
  have r: "merge_horario ex_nuevas_asignaciones ex_nuevos_comentarios (horario ex_team_a)
             (duration (race_config ex_team_a)) (horario ex_team_a_other) = Inr ex_horario_merged"
    using ex_merge by (simp add: ex_team_a_def ex_team_a_other_def)
  have l: "duration (race_config ex_team_a) \<le> length (horario ex_team_a)"
    by (simp add: ex_team_a_def ex_horario_def)
  show ?thesis
    unfolding save_horario_success[OF ex_stale_fields(1,2) ex_stale_load m r ex_stale_fields(5) l]
    by (simp add: ex_stale_def)
qed

lemma ex_save_pilots:
  "save_pilots_handler ex_pilots ex_stale =
     (Rerun, ex_stale\<lparr>
        collection := Some [(''A'', ex_team_a_other\<lparr>horario := ex_horario_other_reconciled\<rparr>),
                            (''B'', ex_team_b)],
        store_log := [FindOne, UpdateOne],
        db := [(''A'', ex_team_a_other\<lparr>horario := ex_horario_other_reconciled\<rparr>), (''B'', ex_team_b)]\<rparr>)"
proof -
  have m: "map_of [(''A'', ex_team_a_other), (''B'', ex_team_b)] ''A'' = Some ex_team_a_other"
    by simp
  have r: "reconcile ex_pilots (horario ex_team_a_other) (duration (race_config ex_team_a)) =
             Inr ex_horario_other_reconciled"
    using ex_reconcile_other by (simp add: ex_team_a_def ex_team_a_other_def)
  show ?thesis
    unfolding save_pilots_success[OF ex_stale_fields(1,2) ex_stale_load m r ex_stale_fields(5)]
    by (simp add: ex_stale_def ex_team_a_other_def)
qed

lemma ex_start_hour:
  "start_hour_handler 15 ex_stale =
     (Rerun, ex_stale\<lparr>
        collection := Some [(''A'', ex_team_a\<lparr>race_config := \<lparr>start_hour = 15, duration = 3\<rparr>\<rparr>)],
        store_log := [UpdateOne],
        db := [(''A'', ex_team_a\<lparr>race_config := \<lparr>start_hour = 15, duration = 3\<rparr>\<rparr>)]\<rparr>)"
proof -
  have h: "15 \<noteq> start_hour (race_config ex_team_a)" by (simp add: ex_team_a_def)
  show ?thesis
    unfolding start_hour_success[OF ex_stale_fields(1,2) h ex_stale_fields(5)]
    by (simp add: ex_stale_def ex_team_a_def)
qed

lemma load_data_log:
  "store_log (snd (load_data s)) =
     store_log s @ (if collection s = None then [FindOne, InsertOne] else [FindOne])"
  by (cases s rule: load_data_cases) auto



text \<open>
  C10. The schedule save merges slot by slot. When the selected team is in the session's
  document and in the stored one and the schedules and widget lists cover the race
  duration, the save succeeds and writes the loaded document with only the selected team's
  schedule changed: in slot \<open>i\<close> of the race the pilot is the widget's selection if that
  differs from the pilot the session showed for slot \<open>i\<close>, and otherwise the pilot the load
  returned; likewise for the comment. So a slot the user did not touch keeps what the load
  returned.
\<close>

theorem save_horario_merges_per_slot:
  assumes "selected_team s = Some sel" and "map_of (db s) sel = Some team_data"
    and "collection s = Some latest" and "map_of latest sel = Some latest_team"
    and "duration (race_config team_data) \<le> length (horario latest_team)"
    and "duration (race_config team_data) \<le> length (horario team_data)"
    and "duration (race_config team_data) \<le> length nuevas_asignaciones"
    and "duration (race_config team_data) \<le> length nuevos_comentarios"
    and "sel \<noteq> []"
  shows "fst (save_horario_handler nuevas_asignaciones nuevos_comentarios s) = Rerun \<and>
     collection (snd (save_horario_handler nuevas_asignaciones nuevos_comentarios s)) =
       Some (AList.update sel
         (latest_team\<lparr>horario :=
            map (\<lambda>i. if i < duration (race_config team_data)
                     then \<lparr>Piloto_al_Volante =
                             (if nuevas_asignaciones ! i \<noteq> Piloto_al_Volante (horario team_data ! i)
                              then nuevas_asignaciones ! i
                              else Piloto_al_Volante (horario latest_team ! i)),
                           Comentarios =
                             (if nuevos_comentarios ! i \<noteq> Comentarios (horario team_data ! i)
                              then nuevos_comentarios ! i
                              else Comentarios (horario latest_team ! i))\<rparr>
                     else horario latest_team ! i)
              [0..<length (horario latest_team)]\<rparr>)
         latest)"
proof -
  let ?d = "duration (race_config team_data)"
  let ?g = "\<lambda>i. merged_slot nuevas_asignaciones nuevos_comentarios (horario team_data) i
                  (horario latest_team ! i)"
  have ld: "load_data s = (latest, s\<lparr>store_log := store_log s @ [FindOne]\<rparr>)"
    using assms(3) by (simp add: load_data_def)
  have m: "merge_horario nuevas_asignaciones nuevos_comentarios (horario team_data) ?d
             (horario latest_team) = Inr (map ?g [0..<?d] @ drop ?d (horario latest_team))"
    by (rule merge_horario_total[OF assms(5) assms(7) assms(8) assms(6)])
  have "map ?g [0..<?d] @ drop ?d (horario latest_team) =
        map (\<lambda>i. if i < ?d then ?g i else horario latest_team ! i)
          [0..<length (horario latest_team)]"
    by (rule prefix_map_drop[OF assms(5)])
  also have "\<dots> =
        map (\<lambda>i. if i < ?d
                 then \<lparr>Piloto_al_Volante =
                         (if nuevas_asignaciones ! i \<noteq> Piloto_al_Volante (horario team_data ! i)
                          then nuevas_asignaciones ! i
                          else Piloto_al_Volante (horario latest_team ! i)),
                       Comentarios =
                         (if nuevos_comentarios ! i \<noteq> Comentarios (horario team_data ! i)
                          then nuevos_comentarios ! i
                          else Comentarios (horario latest_team ! i))\<rparr>
                 else horario latest_team ! i)
          [0..<length (horario latest_team)]"
    by (intro map_cong refl) (simp add: merged_slot_def)
  finally have m': "merge_horario nuevas_asignaciones nuevos_comentarios (horario team_data) ?d
             (horario latest_team) =
        Inr (map (\<lambda>i. if i < ?d
                 then \<lparr>Piloto_al_Volante =
                         (if nuevas_asignaciones ! i \<noteq> Piloto_al_Volante (horario team_data ! i)
                          then nuevas_asignaciones ! i
                          else Piloto_al_Volante (horario latest_team ! i)),
                       Comentarios =
                         (if nuevos_comentarios ! i \<noteq> Comentarios (horario team_data ! i)
                          then nuevos_comentarios ! i
                          else Comentarios (horario latest_team ! i))\<rparr>
                 else horario latest_team ! i)
          [0..<length (horario latest_team)])"
    using m by simp
  show ?thesis
    unfolding save_horario_success[OF assms(1) assms(2) ld assms(4) m' assms(9) assms(6)]
    by simp
qed

theorem save_horario_merges_per_slot_witness:
  "selected_team ex_stale = Some ''A'' \<and>
   map_of (db ex_stale) ''A'' = Some ex_team_a \<and>
   collection ex_stale = Some [(''A'', ex_team_a_other), (''B'', ex_team_b)] \<and>
   horario ex_team_a = ex_horario \<and> horario ex_team_a_other = ex_horario_other \<and>
   duration (race_config ex_team_a) = 3 \<and> ''A'' \<noteq> [] \<and>
   fst (save_horario_handler ex_nuevas_asignaciones ex_nuevos_comentarios ex_stale) = Rerun \<and>
   collection (snd (save_horario_handler ex_nuevas_asignaciones ex_nuevos_comentarios ex_stale)) =
     Some [(''A'', ex_team_a_other\<lparr>horario := ex_horario_merged\<rparr>), (''B'', ex_team_b)]"
proof -
  have m: "map_of [(''A'', ex_team_a_other), (''B'', ex_team_b)] ''A'' = Some ex_team_a_other"
    by simp
  have d: "duration (race_config ex_team_a) = 3" by (simp add: ex_team_a_def)
  have h: "horario ex_team_a = ex_horario" "horario ex_team_a_other = ex_horario_other"
    by (simp_all add: ex_team_a_def ex_team_a_other_def)
  have l: "duration (race_config ex_team_a) \<le> length (horario ex_team_a_other)"
    "duration (race_config ex_team_a) \<le> length (horario ex_team_a)"
    "duration (race_config ex_team_a) \<le> length ex_nuevas_asignaciones"
    "duration (race_config ex_team_a) \<le> length ex_nuevos_comentarios"
    by (simp_all add: d h ex_horario_def ex_horario_other_def ex_nuevas_asignaciones_def
        ex_nuevos_comentarios_def)
  from save_horario_merges_per_slot[OF ex_stale_fields(1,2,3) m l ex_stale_fields(5)]
  have "fst (save_horario_handler ex_nuevas_asignaciones ex_nuevos_comentarios ex_stale) = Rerun"
    by blast
  then show ?thesis
    using ex_stale_fields(1,2,3) d h ex_save_horario by simp
qed

text \<open>
  C2, as the code has it. The save of the pilot frame and the save of the schedule load the
  stored document, and their one write follows that load and puts back the loaded document
  with the selected team replaced. Creating and deleting a team write the session's
  document with the change and load only after the write. A change of the start hour
  writes the session's document and does not load at all.
\<close>

theorem write_operations_and_loads:
  "store_log (snd (load_data s)) =
     store_log s @ (if collection s = None then [FindOne, InsertOne] else [FindOne]) \<and>
   (save_pilots_handler df s = (Rerun, s') \<longrightarrow>
      store_log s' = store_log (snd (load_data s)) @ [UpdateOne] \<and>
      (\<exists>sel t. collection s' = Some (AList.update sel t (fst (load_data s))))) \<and>
   (save_horario_handler nuevas_asignaciones nuevos_comentarios s = (Rerun, s') \<longrightarrow>
      store_log s' = store_log (snd (load_data s)) @ [UpdateOne] \<and>
      (\<exists>sel t. collection s' = Some (AList.update sel t (fst (load_data s))))) \<and>
   (create_team_handler new_team_name new_team_duration s = (Rerun, s') \<longrightarrow>
      store_log s' = store_log s @ [UpdateOne, FindOne] \<and>
      collection s' = Some (AList.update new_team_name
        (get_default_team_structure new_team_name new_team_duration) (db s))) \<and>
   (delete_team_handler team_to_delete s = (Rerun, s') \<longrightarrow>
      store_log s' = store_log s @ [UpdateOne, FindOne] \<and>
      (\<exists>t. team_to_delete = Some t \<and> collection s' = Some (AList.delete t (db s)))) \<and>
   (start_hour_handler new_hour s = (Rerun, s') \<longrightarrow>
      store_log s' = store_log s @ [UpdateOne] \<and>
      (\<exists>sel t. collection s' = Some (AList.update sel t (db s))))"
proof (intro conjI impI)
  show "store_log (snd (load_data s)) =
     store_log s @ (if collection s = None then [FindOne, InsertOne] else [FindOne])"
    by (rule load_data_log)
next
  assume eq: "save_pilots_handler df s = (Rerun, s')"
  from eq show "store_log s' = store_log (snd (load_data s)) @ [UpdateOne]"
    by (cases rule: save_pilots_RerunD) simp
  from eq show "\<exists>sel t. collection s' = Some (AList.update sel t (fst (load_data s)))"
    by (cases rule: save_pilots_RerunD) auto
next
  assume eq: "save_horario_handler nuevas_asignaciones nuevos_comentarios s = (Rerun, s')"
  from eq show "store_log s' = store_log (snd (load_data s)) @ [UpdateOne]"
    by (cases rule: save_horario_RerunD) simp
  from eq show "\<exists>sel t. collection s' = Some (AList.update sel t (fst (load_data s)))"
    by (cases rule: save_horario_RerunD) auto
next
  assume eq: "create_team_handler new_team_name new_team_duration s = (Rerun, s')"
  from create_team_RerunD[OF eq]
  have g: "new_team_name \<noteq> []" "new_team_name \<notin> set (map fst (db s))" by auto
  from eq show "store_log s' = store_log s @ [UpdateOne, FindOne]"
    unfolding create_team_success[OF g] by auto
  from eq show "collection s' = Some (AList.update new_team_name
        (get_default_team_structure new_team_name new_team_duration) (db s))"
    unfolding create_team_success[OF g] by auto
next
  assume eq: "delete_team_handler team_to_delete s = (Rerun, s')"
  from eq show "store_log s' = store_log s @ [UpdateOne, FindOne]"
  proof (cases rule: delete_team_RerunD)
    case (1 name)
    from eq show ?thesis unfolding 1(1) delete_team_success[OF 1(2,3,4)] by auto
  qed
  from eq show "\<exists>t. team_to_delete = Some t \<and> collection s' = Some (AList.delete t (db s))"
  proof (cases rule: delete_team_RerunD)
    case (1 name)
    from eq show ?thesis unfolding 1(1) delete_team_success[OF 1(2,3,4)] by auto
  qed
next
  assume eq: "start_hour_handler new_hour s = (Rerun, s')"
  from eq show "store_log s' = store_log s @ [UpdateOne]"
  proof (cases rule: start_hour_RerunD)
    case (1 sel team_data)
    from eq show ?thesis unfolding start_hour_success[OF 1] by auto
  qed
  from eq show "\<exists>sel t. collection s' = Some (AList.update sel t (db s))"
  proof (cases rule: start_hour_RerunD)
    case (1 sel team_data)
    from eq have "collection s' = Some (AList.update sel
        (team_data\<lparr>race_config := (race_config team_data)\<lparr>start_hour := new_hour\<rparr>\<rparr>) (db s))"
      unfolding start_hour_success[OF 1] by auto
    then show ?thesis by blast
  qed
qed

lemma ex_create_team:
  "create_team_handler ''C'' 3 ex_stale =
     (Rerun, ex_stale\<lparr>
        collection := Some [(''A'', ex_team_a), (''C'', get_default_team_structure ''C'' 3)],
        store_log := [UpdateOne, FindOne],
        db := [(''A'', ex_team_a), (''C'', get_default_team_structure ''C'' 3)],
        newly_created_team := Some ''C''\<rparr>)"
proof -
  have g: "''C'' \<noteq> []" "''C'' \<notin> set (map fst (db ex_stale))" by (simp_all add: ex_stale_def)
  show ?thesis unfolding create_team_success[OF g] by (simp add: ex_stale_def)
qed

lemma ex_delete_team:
  "delete_team_handler (Some ''B'') ex_two_teams =
     (Rerun, ex_two_teams\<lparr>
        collection := Some [(''A'', ex_team_a)],
        store_log := [UpdateOne, FindOne],
        db := [(''A'', ex_team_a)],
        selected_team := None\<rparr>)"
proof -
  have g: "''B'' \<noteq> []" "length (db ex_two_teams) > 1" "''B'' \<in> set (map fst (db ex_two_teams))"
    by (simp_all add: ex_two_teams_def)
  show ?thesis unfolding delete_team_success[OF g] by (simp add: ex_two_teams_def)
qed

theorem write_operations_and_loads_witness:
  "fst (save_pilots_handler ex_pilots ex_stale) = Rerun \<and>
   store_log (snd (save_pilots_handler ex_pilots ex_stale)) = [FindOne, UpdateOne] \<and>
   fst (save_horario_handler ex_nuevas_asignaciones ex_nuevos_comentarios ex_stale) = Rerun \<and>
   store_log (snd (save_horario_handler ex_nuevas_asignaciones ex_nuevos_comentarios ex_stale)) =
     [FindOne, UpdateOne] \<and>
   fst (create_team_handler ''C'' 3 ex_stale) = Rerun \<and>
   store_log (snd (create_team_handler ''C'' 3 ex_stale)) = [UpdateOne, FindOne] \<and>
   fst (delete_team_handler (Some ''B'') ex_two_teams) = Rerun \<and>
   store_log (snd (delete_team_handler (Some ''B'') ex_two_teams)) = [UpdateOne, FindOne] \<and>
   fst (start_hour_handler 15 ex_stale) = Rerun \<and>
   store_log (snd (start_hour_handler 15 ex_stale)) = [UpdateOne]"
proof -
  have p: "save_pilots_handler ex_pilots ex_stale =
             (Rerun, snd (save_pilots_handler ex_pilots ex_stale))"
    using ex_save_pilots by simp
  have h: "save_horario_handler ex_nuevas_asignaciones ex_nuevos_comentarios ex_stale =
             (Rerun, snd (save_horario_handler ex_nuevas_asignaciones ex_nuevos_comentarios ex_stale))"
    using ex_save_horario by simp
  have c: "create_team_handler ''C'' 3 ex_stale = (Rerun, snd (create_team_handler ''C'' 3 ex_stale))"
    using ex_create_team by simp
  have d: "delete_team_handler (Some ''B'') ex_two_teams =
             (Rerun, snd (delete_team_handler (Some ''B'') ex_two_teams))"
    using ex_delete_team by simp
  have t: "start_hour_handler 15 ex_stale = (Rerun, snd (start_hour_handler 15 ex_stale))"
    using ex_start_hour by simp
  have l: "store_log (snd (load_data ex_stale)) = [FindOne]"
    by (simp add: ex_stale_load)
  have e: "store_log ex_stale = []" "store_log ex_two_teams = []"
    by (simp_all add: ex_stale_def ex_two_teams_def)
  from write_operations_and_loads[where s = ex_stale and df = ex_pilots
      and s' = "snd (save_pilots_handler ex_pilots ex_stale)"] p l
  have 1: "store_log (snd (save_pilots_handler ex_pilots ex_stale)) = [FindOne, UpdateOne]"
    by simp
  from write_operations_and_loads[where s = ex_stale
      and nuevas_asignaciones = ex_nuevas_asignaciones and nuevos_comentarios = ex_nuevos_comentarios
      and s' = "snd (save_horario_handler ex_nuevas_asignaciones ex_nuevos_comentarios ex_stale)"] h l
  have 2: "store_log (snd (save_horario_handler ex_nuevas_asignaciones ex_nuevos_comentarios ex_stale)) =
             [FindOne, UpdateOne]"
    by simp
  from write_operations_and_loads[where s = ex_stale and new_team_name = "''C''"
      and new_team_duration = 3 and s' = "snd (create_team_handler ''C'' 3 ex_stale)"] c e
  have 3: "store_log (snd (create_team_handler ''C'' 3 ex_stale)) = [UpdateOne, FindOne]"
    by simp
  from write_operations_and_loads[where s = ex_two_teams and team_to_delete = "Some ''B''"
      and s' = "snd (delete_team_handler (Some ''B'') ex_two_teams)"] d e
  have 4: "store_log (snd (delete_team_handler (Some ''B'') ex_two_teams)) = [UpdateOne, FindOne]"
    by simp
  from write_operations_and_loads[where s = ex_stale and new_hour = 15
      and s' = "snd (start_hour_handler 15 ex_stale)"] t e
  have 5: "store_log (snd (start_hour_handler 15 ex_stale)) = [UpdateOne]"
    by simp
  from 1 2 3 4 5 p h c d t show ?thesis by (metis fst_conv)
qed

text \<open>
  C2 as stated fails for the start hour: the session's copy is stale (the store holds team
  B and Cleo in the last slot of A), the handler issues a single write and no load, and
  the store afterwards holds the session's copy of A alone.
\<close>

theorem start_hour_writes_without_load_counterexample:
  "collection ex_stale = Some [(''A'', ex_team_a_other), (''B'', ex_team_b)] \<and>
   store_log ex_stale = [] \<and>
   fst (start_hour_handler 15 ex_stale) = Rerun \<and>
   store_log (snd (start_hour_handler 15 ex_stale)) = [UpdateOne] \<and>
   collection (snd (start_hour_handler 15 ex_stale)) =
     Some [(''A'', ex_team_a\<lparr>race_config := \<lparr>start_hour = 15, duration = 3\<rparr>\<rparr>)]"
  using ex_start_hour ex_stale_fields by simp

end
